theory Spec2Isabelle
  imports Complex_Main
begin

section \<open>Python values used by the program\<close>

text \<open>
  The program is Python. Its floats (transaction amounts and every figure derived from
  them) are read as exact rationals: \<open>+\<close>, \<open>-\<close>, \<open>*\<close>, \<open>/\<close> and the
  comparisons are the exact ones, and amounts are finite (no NaN, no infinity). Strings
  are byte strings; the case functions act on ASCII letters.

  An exception is a value of \<open>error\<close>; a function that can raise returns
  \<open>error + 'a\<close> with \<open>Inl\<close> for the exception.
\<close>

datatype error =
    ValueError string
  | EmptySequence \<comment> \<open>the ValueError of \<open>max()\<close>/\<open>min()\<close> on an empty list\<close>
  | GraphRecursionError \<comment> \<open>raised by the graph run when \<open>recursion_limit\<close> is used up\<close>

subsection \<open>Numbers to text\<close>

definition digit_char :: "nat \<Rightarrow> char" where
  "digit_char d = ''0123456789'' ! d"

function decimal :: "nat \<Rightarrow> string" where
  "decimal n = (if n < 10 then [digit_char n] else decimal (n div 10) @ [digit_char (n mod 10)])"
  by pat_completeness auto
termination
  by (relation "measure id") auto

text \<open>\<open>str(i)\<close> and \<open>f"{i}"\<close> for an int.\<close>

definition str_int :: "int \<Rightarrow> string" where
  "str_int i = (if i < 0 then CHR ''-'' # decimal (nat (- i)) else decimal (nat i))"

definition zfill :: "nat \<Rightarrow> string \<Rightarrow> string" where
  "zfill w s = replicate (w - length s) (CHR ''0'') @ s"

text \<open>The thousands separator of the format specifications \<open>,.2f\<close> and \<open>,.0f\<close>.\<close>

function group_thousands :: "nat \<Rightarrow> string" where
  "group_thousands n =
     (if n < 1000 then decimal n
      else group_thousands (n div 1000) @ '','' @ zfill 3 (decimal (n mod 1000)))"
  by pat_completeness auto
termination
  by (relation "measure id") auto

definition round_half_even :: "rat \<Rightarrow> int" where
  "round_half_even x =
     (let f = \<lfloor>x\<rfloor>; r = x - of_int f
      in if r < 1 / 2 then f else if 1 / 2 < r then f + 1 else if even f then f else f + 1)"

text \<open>
  \<open>format(x, ",.Nf")\<close> (\<open>grouping = True\<close>) and \<open>format(x, ".Nf")\<close>: the sign, the
  integer part and \<open>N\<close> decimals of \<open>x\<close> rounded half to even.
\<close>

definition format_f :: "bool \<Rightarrow> nat \<Rightarrow> rat \<Rightarrow> string" where
  "format_f grouping prec x =
     (let scaled = nat (round_half_even (\<bar>x\<bar> * 10 ^ prec));
          whole = scaled div 10 ^ prec;
          frac = scaled mod 10 ^ prec
      in (if x < 0 then ''-'' else '''')
         @ (if grouping then group_thousands whole else decimal whole)
         @ (if prec = 0 then '''' else ''.'' @ zfill prec (decimal frac)))"

subsection \<open>Text\<close>

definition is_upper :: "char \<Rightarrow> bool" where
  "is_upper c = (65 \<le> (of_char c :: nat) \<and> (of_char c :: nat) \<le> 90)"

definition is_lower :: "char \<Rightarrow> bool" where
  "is_lower c = (97 \<le> (of_char c :: nat) \<and> (of_char c :: nat) \<le> 122)"

definition lower_char :: "char \<Rightarrow> char" where
  "lower_char c = (if is_upper c then char_of ((of_char c :: nat) + 32) else c)"

definition upper_char :: "char \<Rightarrow> char" where
  "upper_char c = (if is_lower c then char_of ((of_char c :: nat) - 32) else c)"

text \<open>\<open>s.lower()\<close>.\<close>

definition lower :: "string \<Rightarrow> string" where
  "lower s = map lower_char s"

text \<open>\<open>s.title()\<close>: a letter after a non-letter is upper case, every other letter lower case.\<close>

fun title_from :: "bool \<Rightarrow> string \<Rightarrow> string" where
  "title_from prev_cased [] = []"
| "title_from prev_cased (c # cs) =
     (if is_upper c \<or> is_lower c
      then (if prev_cased then lower_char c else upper_char c) # title_from True cs
      else c # title_from False cs)"

definition title :: "string \<Rightarrow> string" where
  "title s = title_from False s"

text \<open>\<open>s.replace("_", " ")\<close>.\<close>

definition replace_underscore :: "string \<Rightarrow> string" where
  "replace_underscore s = map (\<lambda>c. if c = CHR ''_'' then CHR '' '' else c) s"

fun is_prefix :: "string \<Rightarrow> string \<Rightarrow> bool" where
  "is_prefix [] s = True"
| "is_prefix (k # ks) [] = False"
| "is_prefix (k # ks) (c # cs) = (k = c \<and> is_prefix ks cs)"

text \<open>\<open>kw in s\<close> for strings.\<close>

fun contains :: "string \<Rightarrow> string \<Rightarrow> bool" where
  "contains kw [] = (kw = [])"
| "contains kw (c # cs) = (is_prefix kw (c # cs) \<or> contains kw cs)"

text \<open>\<open>sep.join(parts)\<close>.\<close>

fun join :: "string \<Rightarrow> string list \<Rightarrow> string" where
  "join sep [] = []"
| "join sep [s] = s"
| "join sep (s # t # ss) = s @ sep @ join sep (t # ss)"

definition is_space :: "char \<Rightarrow> bool" where
  "is_space c = ((of_char c :: nat) \<in> {9, 10, 11, 12, 13, 28, 29, 30, 31, 32})"

text \<open>\<open>s.strip()\<close>.\<close>

definition strip :: "string \<Rightarrow> string" where
  "strip s = rev (dropWhile is_space (rev (dropWhile is_space s)))"

subsection \<open>Dictionaries in insertion order\<close>

text \<open>
  A \<open>dict\<close> is an association list in insertion order with distinct keys.
  \<open>dict_add k v d\<close> is \<open>d[k] += v\<close> on a \<open>defaultdict(float)\<close>: a missing key starts
  at \<open>0.0\<close> and goes to the end.
\<close>

fun dict_add :: "'k \<Rightarrow> rat \<Rightarrow> ('k \<times> rat) list \<Rightarrow> ('k \<times> rat) list" where
  "dict_add k v [] = [(k, 0 + v)]"
| "dict_add k v ((k', w) # d) =
     (if k = k' then (k', w + v) # d else (k', w) # dict_add k v d)"

text \<open>\<open>d.get(k, 0)\<close>, \<open>k in d\<close>, \<open>d.values()\<close>.\<close>

definition dict_get :: "('k \<times> rat) list \<Rightarrow> 'k \<Rightarrow> rat" where
  "dict_get d k = (case map_of d k of None \<Rightarrow> 0 | Some v \<Rightarrow> v)"

definition dict_in :: "'k \<Rightarrow> ('k \<times> rat) list \<Rightarrow> bool" where
  "dict_in k d = (map_of d k \<noteq> None)"

definition dict_values :: "('k \<times> rat) list \<Rightarrow> rat list" where
  "dict_values d = map snd d"

text \<open>\<open>sum(d.values()) / len(d) if d else 0\<close>.\<close>

definition mean_values :: "('k \<times> rat) list \<Rightarrow> rat" where
  "mean_values d = (if d = [] then 0 else sum_list (dict_values d) / of_nat (length d))"

text \<open>
  \<open>sorted(d.items(), key=lambda x: x[1], reverse=True)\<close>: a stable sort, and
  \<open>reverse=True\<close> keeps entries with equal values in their original order.
\<close>

definition sorted_desc :: "('k \<times> rat) list \<Rightarrow> ('k \<times> rat) list" where
  "sorted_desc items = rev (sort_key snd (rev items))"

section \<open>Dates\<close>

text \<open>
  A \<open>datetime\<close> without time zone. Comparison is that of the field tuples;
  \<open>strftime("%Y-%m")\<close> is the month key; \<open>(a - b).days\<close> is the whole number of
  days of the difference (rounded down), computed as the standard library does from the
  proleptic Gregorian day number and the time of day.
\<close>

record datetime =
  year :: int
  month :: int
  day :: int
  hour :: int
  minute :: int
  second :: int
  microsecond :: int

definition dt_key :: "datetime \<Rightarrow> int list" where
  "dt_key d = [year d, month d, day d, hour d, minute d, second d, microsecond d]"

fun lex_less :: "int list \<Rightarrow> int list \<Rightarrow> bool" where
  "lex_less (x # xs) (y # ys) = (x < y \<or> (x = y \<and> lex_less xs ys))"
| "lex_less [] (y # ys) = True"
| "lex_less xs [] = False"

text \<open>\<open>a < b\<close> on datetimes.\<close>

definition dt_less :: "datetime \<Rightarrow> datetime \<Rightarrow> bool" where
  "dt_less a b = lex_less (dt_key a) (dt_key b)"

definition is_leap :: "int \<Rightarrow> bool" where
  "is_leap y = (y mod 4 = 0 \<and> (y mod 100 \<noteq> 0 \<or> y mod 400 = 0))"

definition days_before_year :: "int \<Rightarrow> int" where
  "days_before_year y =
     (let p = y - 1 in p * 365 + p div 4 - p div 100 + p div 400)"

definition days_before_month :: "int \<Rightarrow> int \<Rightarrow> int" where
  "days_before_month y m =
     [0, 0, 31, 59, 90, 120, 151, 181, 212, 243, 273, 304, 334] ! nat m
       + (if 2 < m \<and> is_leap y then 1 else 0)"

definition toordinal :: "datetime \<Rightarrow> int" where
  "toordinal d = days_before_year (year d) + days_before_month (year d) (month d) + day d"

definition seconds_of_day :: "datetime \<Rightarrow> int" where
  "seconds_of_day d = second d + minute d * 60 + hour d * 3600"

text \<open>\<open>(a - b).days\<close>.\<close>

definition timedelta_days :: "datetime \<Rightarrow> datetime \<Rightarrow> int" where
  "timedelta_days a b =
     (((toordinal a - toordinal b) * 86400 + (seconds_of_day a - seconds_of_day b)) * 1000000
        + (microsecond a - microsecond b)) div (86400 * 1000000)"

text \<open>\<open>d.strftime("%Y-%m")\<close>.\<close>

definition strftime_Ym :: "datetime \<Rightarrow> string" where
  "strftime_Ym d = zfill 4 (decimal (nat (year d))) @ ''-'' @ zfill 2 (decimal (nat (month d)))"

text \<open>
  \<open>max(dates)\<close> and \<open>min(dates)\<close> on a list with first element \<open>d\<close>: the running
  extreme is replaced only by a strictly greater (smaller) element.
\<close>

fun py_max :: "datetime \<Rightarrow> datetime list \<Rightarrow> datetime" where
  "py_max m [] = m"
| "py_max m (d # ds) = py_max (if dt_less m d then d else m) ds"

fun py_min :: "datetime \<Rightarrow> datetime list \<Rightarrow> datetime" where
  "py_min m [] = m"
| "py_min m (d # ds) = py_min (if dt_less d m then d else m) ds"

text \<open>\<open>(max(dates) - min(dates)).days\<close>; on an empty list \<open>max\<close> raises.\<close>

definition date_span :: "datetime list \<Rightarrow> error + int" where
  "date_span dates =
     (case dates of
        [] \<Rightarrow> Inl EmptySequence
      | d # ds \<Rightarrow> Inr (timedelta_days (py_max d ds) (py_min d ds)))"

section \<open>Transactions (src/models/transaction.py)\<close>

datatype TransactionCategory =
    GROCERIES | FUEL | RENT | UTILITIES | SHOPPING | CLOTHES | CAR_SERVICE | CAR_PURCHASE
  | ENTERTAINMENT | DINING | HEALTHCARE | INSURANCE | LOAN_PAYMENT | CREDIT_CARD_PAYMENT
  | DEBT_PAYMENT | INCOME | SAVINGS | OTHER

text \<open>The string value of a category (\<open>category.value\<close>).\<close>

fun category_value :: "TransactionCategory \<Rightarrow> string" where
  "category_value GROCERIES = ''groceries''"
| "category_value FUEL = ''fuel''"
| "category_value RENT = ''rent''"
| "category_value UTILITIES = ''utilities''"
| "category_value SHOPPING = ''shopping''"
| "category_value CLOTHES = ''clothes''"
| "category_value CAR_SERVICE = ''car_service''"
| "category_value CAR_PURCHASE = ''car_purchase''"
| "category_value ENTERTAINMENT = ''entertainment''"
| "category_value DINING = ''dining''"
| "category_value HEALTHCARE = ''healthcare''"
| "category_value INSURANCE = ''insurance''"
| "category_value LOAN_PAYMENT = ''loan_payment''"
| "category_value CREDIT_CARD_PAYMENT = ''credit_card_payment''"
| "category_value DEBT_PAYMENT = ''debt_payment''"
| "category_value INCOME = ''income''"
| "category_value SAVINGS = ''savings''"
| "category_value OTHER = ''other''"

datatype TransactionType =
  DEBIT | CREDIT | LOAN_PAYMENT_TYPE | DEBT_PAYMENT_TYPE | TRANSFER

record Transaction =
  date :: datetime
  amount :: rat
  category :: TransactionCategory
  description :: string
  type :: TransactionType
  account_type :: "string option"

section \<open>The analytics engine (src/analysis/financial_analyzer.py)\<close>

record FinancialAnalyzer =
  transactions :: "Transaction list"

text \<open>\<open>_validate_data\<close>.\<close>

definition validate_data :: "FinancialAnalyzer \<Rightarrow> error + unit" where
  "validate_data self =
     (if transactions self = [] then Inl (ValueError ''No transactions provided.'')
      else
        (case date_span (map date (transactions self)) of
           Inl e \<Rightarrow> Inl e
         | Inr days \<Rightarrow>
             if days < 30
             then Inl (ValueError (''Not enough data: only '' @ str_int days
                                     @ '' days of transactions.''))
             else Inr ()))"

text \<open>\<open>FinancialAnalyzer.__init__\<close>: the constructed object, or the exception.\<close>

definition FinancialAnalyzer_init :: "Transaction list \<Rightarrow> error + FinancialAnalyzer" where
  "FinancialAnalyzer_init txs =
     (let self = \<lparr>transactions = txs\<rparr>
      in case validate_data self of Inl e \<Rightarrow> Inl e | Inr u \<Rightarrow> Inr self)"

text \<open>\<open>_months\<close>.\<close>

definition months :: "FinancialAnalyzer \<Rightarrow> error + rat" where
  "months self =
     (case date_span (map date (transactions self)) of
        Inl e \<Rightarrow> Inl e
      | Inr days \<Rightarrow> Inr (max (of_int days / 30) 1))"

definition get_spending_by_category :: "FinancialAnalyzer \<Rightarrow> (TransactionCategory \<times> rat) list" where
  "get_spending_by_category self =
     foldl (\<lambda>result t. if amount t < 0 then dict_add (category t) \<bar>amount t\<bar> result else result)
       [] (transactions self)"

definition get_monthly_spending :: "FinancialAnalyzer \<Rightarrow> (string \<times> rat) list" where
  "get_monthly_spending self =
     foldl (\<lambda>result t. if amount t < 0 then dict_add (strftime_Ym (date t)) \<bar>amount t\<bar> result
                        else result)
       [] (transactions self)"

record income_summary =
  total :: rat
  average_monthly :: rat
  count :: nat
  months_covered :: rat
  monthly_savings :: rat
  savings_rate :: rat
  average_monthly_spending :: rat

text \<open>
  \<open>get_income_summary\<close>. The span of the income dates is taken after the guard
  \<open>if not income_txns\<close>, so \<open>max\<close> and \<open>min\<close> see a non-empty list.
\<close>

definition get_income_summary :: "FinancialAnalyzer \<Rightarrow> income_summary" where
  "get_income_summary self =
     (let income_txns = filter (\<lambda>t. 0 < amount t) (transactions self)
      in case map date income_txns of
           [] \<Rightarrow>
             \<lparr>total = 0, average_monthly = 0, count = 0, months_covered = 0,
              monthly_savings = 0, savings_rate = 0, average_monthly_spending = 0\<rparr>
         | d # ds \<Rightarrow>
             (let total_income = sum_list (map amount income_txns);
                  months_income = max (of_int (timedelta_days (py_max d ds) (py_min d ds)) / 30) 1;
                  avg_income = total_income / months_income;
                  monthly_spending = get_monthly_spending self;
                  avg_spending = mean_values monthly_spending;
                  savings = avg_income - avg_spending
              in \<lparr>total = total_income, average_monthly = avg_income,
                  count = length income_txns, months_covered = months_income,
                  monthly_savings = savings,
                  savings_rate = (if 0 < avg_income then savings / avg_income * 100 else 0),
                  average_monthly_spending = avg_spending\<rparr>))"

definition debt_categories :: "TransactionCategory list" where
  "debt_categories = [LOAN_PAYMENT, DEBT_PAYMENT, CREDIT_CARD_PAYMENT]"

text \<open>
  A strategy entry; its key \<open>description\<close> is the field \<open>strategy_description\<close>
  (the name \<open>description\<close> is a field of \<open>Transaction\<close>).
\<close>

record debt_strategy =
  strategy :: string
  strategy_description :: string
  monthly_allocation :: rat

record debt_analysis =
  total_debt_payments :: rat
  average_monthly_debt :: rat
  debt_transaction_count :: nat
  monthly_breakdown :: "(string \<times> rat) list"
  strategies :: "debt_strategy list"
  available_for_debt :: rat

definition get_debt_analysis :: "FinancialAnalyzer \<Rightarrow> debt_analysis" where
  "get_debt_analysis self =
     (let debt_txns = filter (\<lambda>t. category t \<in> set debt_categories) (transactions self);
          total_debt = sum_list (map (\<lambda>t. \<bar>amount t\<bar>) debt_txns);
          monthly = foldl (\<lambda>m t. dict_add (strftime_Ym (date t)) \<bar>amount t\<bar> m) [] debt_txns;
          avg_monthly = mean_values monthly;
          available = monthly_savings (get_income_summary self);
          potential = avg_monthly + max 0 (available * 0.5);
          strats =
            (if 0 < avg_monthly
             then [\<lparr>strategy = ''debt_snowball'',
                    strategy_description =
                      ''Pay minimums on all debts, then put extra toward the smallest balance.'',
                    monthly_allocation = potential\<rparr>,
                   \<lparr>strategy = ''debt_avalanche'',
                    strategy_description =
                      ''Pay minimums on all debts, then put extra toward the highest-interest balance.'',
                    monthly_allocation = potential\<rparr>]
             else [])
      in \<lparr>total_debt_payments = total_debt, average_monthly_debt = avg_monthly,
          debt_transaction_count = length debt_txns, monthly_breakdown = monthly,
          strategies = strats, available_for_debt = available\<rparr>)"

text \<open>
  An entry of \<open>identify_spending_patterns\<close>. Its keys \<open>type\<close> and \<open>category\<close> are the
  fields \<open>pattern_type\<close> and \<open>pattern_category\<close> (the plain names are fields of
  \<open>Transaction\<close>); a key the entry does not have is \<open>None\<close>.
\<close>

record pattern =
  pattern_type :: string
  pattern_category :: TransactionCategory
  monthly_average :: "rat option"
  frequency :: "nat option"
  insight :: string

text \<open>The body of the loop over the categories sorted by total spending.\<close>

definition high_spending_step ::
    "rat \<Rightarrow> rat \<Rightarrow> pattern list \<Rightarrow> TransactionCategory \<times> rat \<Rightarrow> pattern list" where
  "high_spending_step n_months avg_monthly patterns item =
     (let monthly_avg = snd item / n_months
      in if avg_monthly * 0.3 < monthly_avg
         then patterns @
                [\<lparr>pattern_type = ''high_spending'', pattern_category = fst item,
                  monthly_average = Some monthly_avg, frequency = None,
                  insight = ''High spending in '' @ category_value (fst item) @ '': $''
                              @ format_f True 2 monthly_avg @ ''/month''\<rparr>]
         else patterns)"

text \<open>
  The two frequency checks, for fuel (\<open>per_month = 4\<close>) and dining (\<open>per_month = 8\<close>):
  they run only when the category is a key of the spending dictionary, and count the
  transactions of the category whatever their sign.
\<close>

definition frequent_step ::
    "FinancialAnalyzer \<Rightarrow> (TransactionCategory \<times> rat) list \<Rightarrow> rat \<Rightarrow> TransactionCategory
      \<Rightarrow> rat \<Rightarrow> string \<Rightarrow> string \<Rightarrow> pattern list \<Rightarrow> pattern list" where
  "frequent_step self category_spending n_months cat per_month type_name text patterns =
     (if dict_in cat category_spending
      then (let cat_transactions = filter (\<lambda>t. category t = cat) (transactions self);
                cat_frequency = length cat_transactions
            in if per_month * n_months * 1.5 < of_nat cat_frequency
               then patterns @
                      [\<lparr>pattern_type = type_name, pattern_category = cat,
                        monthly_average = None, frequency = Some cat_frequency,
                        insight = text @ str_int (int cat_frequency)
                                    @ '' times over the period''\<rparr>]
               else patterns)
      else patterns)"

definition identify_spending_patterns :: "FinancialAnalyzer \<Rightarrow> error + pattern list" where
  "identify_spending_patterns self =
     (let category_spending = get_spending_by_category self;
          monthly_spending = get_monthly_spending self;
          avg_monthly = mean_values monthly_spending
      in case months self of
           Inl e \<Rightarrow> Inl e
         | Inr n_months \<Rightarrow>
             (let patterns1 = foldl (high_spending_step n_months avg_monthly) []
                                (sorted_desc category_spending);
                  patterns2 = frequent_step self category_spending n_months FUEL 4
                                ''frequent_fuel'' ''Frequent fuel purchases: '' patterns1;
                  patterns3 = frequent_step self category_spending n_months DINING 8
                                ''frequent_dining'' ''Frequent dining out: '' patterns2
              in Inr patterns3))"

text \<open>The dictionary \<open>targets\<close>, in its order of declaration.\<close>

definition targets :: "(TransactionCategory \<times> rat) list" where
  "targets = [(RENT, 30), (GROCERIES, 10), (FUEL, 5), (UTILITIES, 5), (DINING, 5), (SHOPPING, 5)]"

text \<open>
  An entry of \<open>recommendations\<close>; its key \<open>category\<close> is the field \<open>rec_category\<close>.
\<close>

record recommendation =
  rec_category :: string
  recommended_monthly :: rat
  actual_monthly :: rat
  suggestion :: string

text \<open>
  The result of \<open>get_budget_recommendations\<close>; its key \<open>average_monthly_spending\<close> is
  the field \<open>budget_average_monthly_spending\<close> (the plain name is a field of
  \<open>income_summary\<close>).
\<close>

record budget =
  recommendations :: "recommendation list"
  average_monthly_income :: rat
  budget_average_monthly_spending :: rat
  total_recommended_budget :: rat

text \<open>The body of the loop over \<open>targets\<close>, on the pair (recommendations, total_recommended).\<close>

definition budget_step ::
    "rat \<Rightarrow> (TransactionCategory \<times> rat) list \<Rightarrow> rat \<Rightarrow> recommendation list \<times> rat
      \<Rightarrow> TransactionCategory \<times> rat \<Rightarrow> recommendation list \<times> rat" where
  "budget_step avg_income spending n_months acc target =
     (let recommended = (if 0 < avg_income then avg_income * snd target / 100 else 0);
          actual = dict_get spending (fst target) / n_months;
          total_recommended = snd acc + recommended
      in if recommended * 1.2 < actual
         then (let cat_name = title (replace_underscore (category_value (fst target)))
               in (fst acc @
                     [\<lparr>rec_category = cat_name, recommended_monthly = recommended,
                       actual_monthly = actual,
                       suggestion = ''Consider reducing '' @ cat_name @ '' by $''
                                      @ format_f True 2 (actual - recommended) @ ''/month''\<rparr>],
                   total_recommended))
         else (fst acc, total_recommended))"

definition get_budget_recommendations :: "FinancialAnalyzer \<Rightarrow> error + budget" where
  "get_budget_recommendations self =
     (let income = get_income_summary self;
          spending = get_spending_by_category self;
          avg_income = average_monthly income
      in case months self of
           Inl e \<Rightarrow> Inl e
         | Inr n_months \<Rightarrow>
             (let acc = foldl (budget_step avg_income spending n_months) ([], 0) targets
              in Inr \<lparr>recommendations = fst acc, average_monthly_income = avg_income,
                      budget_average_monthly_spending = average_monthly_spending income,
                      total_recommended_budget = snd acc\<rparr>))"

section \<open>Sample data\<close>

text \<open>Concrete dates and transactions on which the theorems below are instantiated.\<close>

definition at_midnight :: "int \<Rightarrow> int \<Rightarrow> int \<Rightarrow> datetime" where
  "at_midnight y m d =
     \<lparr>year = y, month = m, day = d, hour = 0, minute = 0, second = 0, microsecond = 0\<rparr>"

definition txn :: "datetime \<Rightarrow> rat \<Rightarrow> TransactionCategory \<Rightarrow> Transaction" where
  "txn d a c =
     \<lparr>date = d, amount = a, category = c, description = '''',
      type = (if 0 < a then CREDIT else DEBIT), account_type = None\<rparr>"

definition is_digit :: "char \<Rightarrow> bool" where
  "is_digit c = (c \<in> set ''0123456789'')"

definition sample_txs :: "Transaction list" where
  "sample_txs =
     [txn (at_midnight 2024 1 1) 2250 INCOME, txn (at_midnight 2024 1 15) 2250 INCOME,
      txn (at_midnight 2024 1 2) (- 1200) RENT, txn (at_midnight 2024 2 2) (- 1200) RENT,
      txn (at_midnight 2024 3 5) (- 350) LOAN_PAYMENT, txn (at_midnight 2024 3 6) 100 DEBT_PAYMENT,
      txn (at_midnight 2024 3 6) (- 40) FUEL]"

definition no_income_txs :: "Transaction list" where
  "no_income_txs = [txn (at_midnight 2024 1 2) (- 1200) RENT, txn (at_midnight 2024 3 2) (- 1200) RENT]"

definition sign_flipped_txs :: "Transaction list" where
  "sign_flipped_txs =
     [txn (at_midnight 2024 1 1) 2250 INCOME, txn (at_midnight 2024 1 15) 2250 INCOME,
      txn (at_midnight 2024 1 2) (- 1200) RENT, txn (at_midnight 2024 2 2) (- 1200) RENT,
      txn (at_midnight 2024 3 5) 350 LOAN_PAYMENT, txn (at_midnight 2024 3 6) (- 100) DEBT_PAYMENT,
      txn (at_midnight 2024 3 6) (- 40) FUEL]"

section \<open>Order of dates\<close>

text \<open>
  \<open>lex_less\<close> is a strict linear order, so \<open>py_max\<close> returns a latest and
  \<open>py_min\<close> an earliest date of the list.
\<close>

lemma lex_less_irrefl: "\<not> lex_less xs xs"
  by (induction xs) auto

lemma lex_less_trans: "lex_less xs ys \<Longrightarrow> lex_less ys zs \<Longrightarrow> lex_less xs zs"
proof (induction xs ys arbitrary: zs rule: lex_less.induct)
  case (1 x xs y ys)
  then show ?case by (cases zs) auto
next
  case (2 y ys)
  then show ?case by (cases zs) auto
next
  case (3 xs)
  then show ?case by simp
qed

lemma lex_less_total: "lex_less xs ys \<or> xs = ys \<or> lex_less ys xs"
proof (induction xs ys rule: lex_less.induct)
  case (3 xs)
  then show ?case by (cases xs) auto
qed auto

lemma lex_ge_trans: "\<not> lex_less xs ys \<Longrightarrow> \<not> lex_less ys zs \<Longrightarrow> \<not> lex_less xs zs"
  using lex_less_total lex_less_trans lex_less_irrefl by metis

lemma dt_ge_trans: "\<not> dt_less a b \<Longrightarrow> \<not> dt_less b c \<Longrightarrow> \<not> dt_less a c"
  unfolding dt_less_def by (rule lex_ge_trans)

lemma dt_less_irrefl: "\<not> dt_less a a"
  by (simp add: dt_less_def lex_less_irrefl)

lemma dt_less_asym: "dt_less a b \<Longrightarrow> \<not> dt_less b a"
  unfolding dt_less_def using lex_less_trans lex_less_irrefl by blast

lemma py_max_ge_start: "\<not> dt_less (py_max m ds) m"
proof (induction ds arbitrary: m)
  case Nil
  then show ?case by (simp add: dt_less_irrefl)
next
  case (Cons d ds)
  show ?case
  proof (cases "dt_less m d")
    case True
    have "\<not> dt_less (py_max d ds) d" by (rule Cons.IH)
    moreover have "\<not> dt_less d m" using True by (rule dt_less_asym)
    ultimately have "\<not> dt_less (py_max d ds) m" by (rule dt_ge_trans)
    with True show ?thesis by simp
  next
    case False
    then show ?thesis using Cons.IH[of m] by simp
  qed
qed

lemma py_max_upper: "x \<in> set (m # ds) \<Longrightarrow> \<not> dt_less (py_max m ds) x"
proof (induction ds arbitrary: m)
  case Nil
  then show ?case by (simp add: dt_less_irrefl)
next
  case (Cons d ds)
  let ?m' = "if dt_less m d then d else m"
  have step: "py_max m (d # ds) = py_max ?m' ds" by simp
  have ge: "\<not> dt_less (py_max ?m' ds) ?m'" by (rule py_max_ge_start)
  from Cons.prems consider "x = m" | "x = d" | "x \<in> set ds" by auto
  then show ?case
  proof cases
    case 1
    have "\<not> dt_less ?m' m" by (auto simp: dt_less_irrefl dest: dt_less_asym)
    with ge have "\<not> dt_less (py_max ?m' ds) m" by (rule dt_ge_trans)
    with 1 step show ?thesis by simp
  next
    case 2
    have "\<not> dt_less ?m' d" by (auto simp: dt_less_irrefl)
    with ge have "\<not> dt_less (py_max ?m' ds) d" by (rule dt_ge_trans)
    with 2 step show ?thesis by simp
  next
    case 3
    then have "x \<in> set (?m' # ds)" by simp
    then have "\<not> dt_less (py_max ?m' ds) x" by (rule Cons.IH)
    with step show ?thesis by simp
  qed
qed

lemma py_max_mem: "py_max m ds \<in> set (m # ds)"
proof (induction ds arbitrary: m)
  case Nil
  then show ?case by simp
next
  case (Cons d ds)
  from Cons.IH[of "if dt_less m d then d else m"] show ?case
    by (auto split: if_splits)
qed

lemma py_min_le_start: "\<not> dt_less m (py_min m ds)"
proof (induction ds arbitrary: m)
  case Nil
  then show ?case by (simp add: dt_less_irrefl)
next
  case (Cons d ds)
  show ?case
  proof (cases "dt_less d m")
    case True
    have "\<not> dt_less d (py_min d ds)" by (rule Cons.IH)
    moreover have "\<not> dt_less m d" using True by (rule dt_less_asym)
    ultimately have "\<not> dt_less m (py_min d ds)" by (rule dt_ge_trans[rotated])
    with True show ?thesis by simp
  next
    case False
    then show ?thesis using Cons.IH[of m] by simp
  qed
qed

lemma py_min_lower: "x \<in> set (m # ds) \<Longrightarrow> \<not> dt_less x (py_min m ds)"
proof (induction ds arbitrary: m)
  case Nil
  then show ?case by (simp add: dt_less_irrefl)
next
  case (Cons d ds)
  let ?m' = "if dt_less d m then d else m"
  have step: "py_min m (d # ds) = py_min ?m' ds" by simp
  have le: "\<not> dt_less ?m' (py_min ?m' ds)" by (rule py_min_le_start)
  from Cons.prems consider "x = m" | "x = d" | "x \<in> set ds" by auto
  then show ?case
  proof cases
    case 1
    have "\<not> dt_less m ?m'" by (auto simp: dt_less_irrefl dest: dt_less_asym)
    from this le have "\<not> dt_less m (py_min ?m' ds)" by (rule dt_ge_trans)
    with 1 step show ?thesis by simp
  next
    case 2
    have "\<not> dt_less d ?m'" by (auto simp: dt_less_irrefl)
    from this le have "\<not> dt_less d (py_min ?m' ds)" by (rule dt_ge_trans)
    with 2 step show ?thesis by simp
  next
    case 3
    then have "x \<in> set (?m' # ds)" by simp
    then have "\<not> dt_less x (py_min ?m' ds)" by (rule Cons.IH)
    with step show ?thesis by simp
  qed
qed

lemma py_min_mem: "py_min m ds \<in> set (m # ds)"
proof (induction ds arbitrary: m)
  case Nil
  then show ?case by simp
next
  case (Cons d ds)
  from Cons.IH[of "if dt_less d m then d else m"] show ?case
    by (auto split: if_splits)
qed

lemma init_nonempty:
  "FinancialAnalyzer_init (t # ts) =
     (let days = timedelta_days (py_max (date t) (map date ts)) (py_min (date t) (map date ts))
      in if days < 30
         then Inl (ValueError (''Not enough data: only '' @ str_int days @ '' days of transactions.''))
         else Inr \<lparr>transactions = t # ts\<rparr>)"
  by (simp add: FinancialAnalyzer_init_def validate_data_def date_span_def Let_def)

section \<open>Construction of the analytics engine\<close>

text \<open>
  C1 (amended). Construction on the empty list fails with the ValueError whose message is
  the fixed text "No transactions provided." (it states no span). On a non-empty list,
  \<open>hi\<close> is a latest and \<open>lo\<close> an earliest transaction date, \<open>days\<close> is the whole-day
  span between them; construction fails with the ValueError "Not enough data: only
  \<open>days\<close> days of transactions." when \<open>days < 30\<close>, and succeeds, returning the analyzer
  that holds the list, when \<open>days \<ge> 30\<close>.
\<close>

theorem C1_construction:
  "FinancialAnalyzer_init [] = Inl (ValueError ''No transactions provided.'') \<and>
   (let hi = py_max (date t) (map date ts);
        lo = py_min (date t) (map date ts);
        days = timedelta_days hi lo
    in hi \<in> set (map date (t # ts)) \<and> lo \<in> set (map date (t # ts)) \<and>
       (\<forall>x \<in> set (t # ts). \<not> dt_less hi (date x) \<and> \<not> dt_less (date x) lo) \<and>
       FinancialAnalyzer_init (t # ts) =
         (if days < 30
          then Inl (ValueError (''Not enough data: only '' @ str_int days
                                  @ '' days of transactions.''))
          else Inr \<lparr>transactions = t # ts\<rparr>))"
proof -
  let ?ds = "map date ts"
  have empty: "FinancialAnalyzer_init [] = Inl (ValueError ''No transactions provided.'')"
    by (simp add: FinancialAnalyzer_init_def validate_data_def)
  have hi: "py_max (date t) ?ds \<in> set (map date (t # ts))"
    using py_max_mem[of "date t" ?ds] by simp
  have lo: "py_min (date t) ?ds \<in> set (map date (t # ts))"
    using py_min_mem[of "date t" ?ds] by simp
  have bounds: "\<forall>x \<in> set (t # ts). \<not> dt_less (py_max (date t) ?ds) (date x)
                  \<and> \<not> dt_less (date x) (py_min (date t) ?ds)"
  proof
    fix x assume "x \<in> set (t # ts)"
    then have "date x \<in> set (date t # ?ds)" by auto
    then show "\<not> dt_less (py_max (date t) ?ds) (date x)
                 \<and> \<not> dt_less (date x) (py_min (date t) ?ds)"
      using py_max_upper py_min_lower by blast
  qed
  from empty hi lo bounds init_nonempty[of t ts] show ?thesis
    by (simp only: Let_def)
qed

section \<open>Income summary\<close>

lemma init_Inr: "FinancialAnalyzer_init txs = Inr self \<Longrightarrow> self = \<lparr>transactions = txs\<rparr>"
  by (auto simp: FinancialAnalyzer_init_def Let_def split: sum.splits)

lemma init_Inr_span:
  "FinancialAnalyzer_init txs = Inr self \<Longrightarrow>
     \<exists>days. date_span (map date txs) = Inr days \<and> 30 \<le> days"
  by (auto simp: FinancialAnalyzer_init_def validate_data_def Let_def split: sum.splits if_splits)

lemma date_span_Cons: "date_span (d # ds) = Inr (timedelta_days (py_max d ds) (py_min d ds))"
  by (simp add: date_span_def)

text \<open>
  C2. For a list on which construction succeeds: when no transaction has a positive
  amount, every numeric field of the income summary is zero. Otherwise, with \<open>days\<close> the
  whole-day span of the dates of the positive-amount transactions (it exists: the list of
  those dates is not empty), \<open>months_covered = max (days / 30) 1\<close>, \<open>total\<close> is the sum of
  the positive amounts, \<open>average_monthly = total / months_covered\<close>,
  \<open>average_monthly_spending\<close> is the mean of the values of \<open>get_monthly_spending\<close> (0
  when that dictionary is empty), \<open>monthly_savings = average_monthly -
  average_monthly_spending\<close>, and \<open>savings_rate = monthly_savings / average_monthly * 100\<close>
  when \<open>average_monthly > 0\<close> and 0 otherwise.
\<close>

theorem C2_income_summary:
  assumes "FinancialAnalyzer_init txs = Inr self"
  shows "(let income_txns = filter (\<lambda>t. 0 < amount t) txs;
              s = get_income_summary self
          in (\<not> (\<exists>t \<in> set txs. 0 < amount t) \<longrightarrow>
                total s = 0 \<and> average_monthly s = 0 \<and> count s = 0 \<and> months_covered s = 0 \<and>
                monthly_savings s = 0 \<and> savings_rate s = 0 \<and> average_monthly_spending s = 0) \<and>
             ((\<exists>t \<in> set txs. 0 < amount t) \<longrightarrow>
                (case date_span (map date income_txns) of
                   Inl e \<Rightarrow> False
                 | Inr days \<Rightarrow>
                     months_covered s = max (of_int days / 30) 1 \<and>
                     total s = sum_list (map amount income_txns) \<and>
                     count s = length income_txns \<and>
                     average_monthly s = total s / months_covered s \<and>
                     average_monthly_spending s =
                       (if get_monthly_spending self = [] then 0
                        else sum_list (map snd (get_monthly_spending self))
                               / of_nat (length (get_monthly_spending self))) \<and>
                     monthly_savings s = average_monthly s - average_monthly_spending s \<and>
                     savings_rate s =
                       (if 0 < average_monthly s
                        then monthly_savings s / average_monthly s * 100 else 0))))"
proof -
  from assms have self: "self = \<lparr>transactions = txs\<rparr>" by (rule init_Inr)
  let ?inc = "filter (\<lambda>t. 0 < amount t) txs"
  show ?thesis
  proof (cases ?inc)
    case Nil
    then have none: "\<not> (\<exists>t \<in> set txs. 0 < amount t)"
      by (simp add: filter_empty_conv)
    from Nil show ?thesis unfolding Let_def
      by (simp add: none get_income_summary_def self filter_empty_conv)
  next
    case (Cons t ts)
    then have some: "\<exists>t \<in> set txs. 0 < amount t"
      by (metis filter_empty_conv list.distinct(1))
    from Cons have dates: "map date ?inc = date t # map date ts" by simp
    show ?thesis unfolding Let_def
      using some
      by (simp add: get_income_summary_def self dates date_span_Cons Let_def
            mean_values_def dict_values_def Cons)
  qed
qed

section \<open>Dictionaries built by the grouping loops\<close>

lemma map_of_dict_add:
  "map_of (dict_add k v d) k' = (if k' = k then Some (dict_get d k + v) else map_of d k')"
  by (induction d) (auto simp: dict_get_def)

lemma dict_get_dict_add:
  "dict_get (dict_add k v d) k' = (if k' = k then dict_get d k + v else dict_get d k')"
  by (simp add: dict_get_def[of "dict_add k v d"] map_of_dict_add) (simp add: dict_get_def)

lemma keys_dict_add: "fst ` set (dict_add k v d) = insert k (fst ` set d)"
  by (induction k v d rule: dict_add.induct) force+

lemma distinct_dict_add: "distinct (map fst d) \<Longrightarrow> distinct (map fst (dict_add k v d))"
proof (induction d)
  case Nil
  then show ?case by simp
next
  case (Cons kv d)
  obtain k' w where kv: "kv = (k', w)" by (cases kv)
  from Cons show ?case
    using keys_dict_add[of k v d] by (auto simp: kv image_iff)
qed

lemma dict_add_not_Nil: "dict_add k v d \<noteq> []"
  by (induction k v d rule: dict_add.induct) auto

text \<open>Grouping the weights \<open>w t\<close> of the selected elements by the key \<open>kf t\<close>.\<close>

lemma group_lookup:
  "map_of (foldl (\<lambda>res t. if P t then dict_add (kf t) (w t) res else res) d txs) k =
     (if \<exists>t \<in> set txs. P t \<and> kf t = k
      then Some (dict_get d k + sum_list (map w (filter (\<lambda>t. P t \<and> kf t = k) txs)))
      else map_of d k)"
proof (induction txs arbitrary: d)
  case Nil
  then show ?case by simp
next
  case (Cons t txs)
  let ?d' = "if P t then dict_add (kf t) (w t) d else d"
  have step: "foldl (\<lambda>res t. if P t then dict_add (kf t) (w t) res else res) d (t # txs)
                = foldl (\<lambda>res t. if P t then dict_add (kf t) (w t) res else res) ?d' txs"
    by simp
  have none: "\<not> (\<exists>t \<in> set txs. P t \<and> kf t = k) \<Longrightarrow>
                sum_list (map w (filter (\<lambda>t. P t \<and> kf t = k) txs)) = 0"
    by (simp add: filter_empty_conv[THEN iffD2])
  show ?case
    unfolding step Cons.IH
    using none by (auto simp: map_of_dict_add dict_get_dict_add)
qed

lemma group_distinct:
  "distinct (map fst d) \<Longrightarrow>
     distinct (map fst (foldl (\<lambda>res t. if P t then dict_add (kf t) (w t) res else res) d txs))"
  by (induction txs arbitrary: d) (auto simp: distinct_dict_add)

lemma group_Nil_iff:
  "foldl (\<lambda>res t. if P t then dict_add (kf t) (w t) res else res) d txs = [] \<longleftrightarrow>
     d = [] \<and> \<not> (\<exists>t \<in> set txs. P t)"
  by (induction txs arbitrary: d) (auto simp: dict_add_not_Nil)

lemma foldl_filter:
  "foldl f d (filter P xs) = foldl (\<lambda>a t. if P t then f a t else a) d xs"
  by (induction xs arbitrary: d) auto

lemma dict_get_group:
  "dict_get (foldl (\<lambda>res t. if P t then dict_add (kf t) (w t) res else res) [] txs) k =
     sum_list (map w (filter (\<lambda>t. P t \<and> kf t = k) txs))"
proof -
  have "\<not> (\<exists>t \<in> set txs. P t \<and> kf t = k) \<Longrightarrow>
          sum_list (map w (filter (\<lambda>t. P t \<and> kf t = k) txs)) = 0"
    by (simp add: filter_empty_conv[THEN iffD2])
  then show ?thesis
    by (auto simp: dict_get_def[of "foldl _ _ _"] group_lookup) (simp add: dict_get_def)
qed


section \<open>Debt analysis\<close>

lemma debt_fields:
  "get_debt_analysis \<lparr>transactions = txs\<rparr> = r \<Longrightarrow>
     total_debt_payments r
       = sum_list (map (\<lambda>t. \<bar>amount t\<bar>) (filter (\<lambda>t. category t \<in> set debt_categories) txs)) \<and>
     debt_transaction_count r = length (filter (\<lambda>t. category t \<in> set debt_categories) txs) \<and>
     monthly_breakdown r
       = foldl (\<lambda>m t. if category t \<in> set debt_categories
                        then dict_add (strftime_Ym (date t)) \<bar>amount t\<bar> m else m) [] txs \<and>
     average_monthly_debt r = mean_values (monthly_breakdown r) \<and>
     available_for_debt r = monthly_savings (get_income_summary \<lparr>transactions = txs\<rparr>) \<and>
     strategies r =
       (if 0 < average_monthly_debt r
        then [\<lparr>strategy = ''debt_snowball'',
               strategy_description =
                 ''Pay minimums on all debts, then put extra toward the smallest balance.'',
               monthly_allocation = average_monthly_debt r + max 0 (available_for_debt r * 0.5)\<rparr>,
              \<lparr>strategy = ''debt_avalanche'',
               strategy_description =
                 ''Pay minimums on all debts, then put extra toward the highest-interest balance.'',
               monthly_allocation = average_monthly_debt r + max 0 (available_for_debt r * 0.5)\<rparr>]
        else [])"
  by (auto simp: get_debt_analysis_def Let_def foldl_filter)

text \<open>
  C3. For a list on which construction succeeds, \<open>strategies\<close> is non-empty exactly when
  \<open>average_monthly_debt > 0\<close> (the mean of the values of \<open>monthly_breakdown\<close>, 0 when
  it is empty); when non-empty it holds the two strategies "debt_snowball" and
  "debt_avalanche", in this order, both with \<open>monthly_allocation = average_monthly_debt +
  max 0 (monthly_savings * 0.5)\<close>, \<open>monthly_savings\<close> being that of \<open>get_income_summary\<close>;
  and a list with no transaction of a debt category gives \<open>strategies = []\<close> and
  \<open>total_debt_payments = 0\<close>.
\<close>

theorem C3_debt_strategies:
  assumes "FinancialAnalyzer_init txs = Inr self"
  shows "(let r = get_debt_analysis self;
              alloc = average_monthly_debt r
                        + max 0 (monthly_savings (get_income_summary self) * 0.5)
          in (strategies r \<noteq> [] \<longleftrightarrow> 0 < average_monthly_debt r) \<and>
             (0 < average_monthly_debt r \<longrightarrow>
                map strategy (strategies r) = [''debt_snowball'', ''debt_avalanche''] \<and>
                map monthly_allocation (strategies r) = [alloc, alloc]) \<and>
             average_monthly_debt r =
               (if monthly_breakdown r = [] then 0
                else sum_list (map snd (monthly_breakdown r))
                       / of_nat (length (monthly_breakdown r))) \<and>
             (\<not> (\<exists>t \<in> set txs. category t \<in> set debt_categories) \<longrightarrow>
                strategies r = [] \<and> total_debt_payments r = 0))"
proof -
  from assms have self: "self = \<lparr>transactions = txs\<rparr>" by (rule init_Inr)
  let ?r = "get_debt_analysis self"
  note f = debt_fields[OF refl, of txs, folded self]
  have names: "(strategies ?r \<noteq> [] \<longleftrightarrow> 0 < average_monthly_debt ?r) \<and>
               (0 < average_monthly_debt ?r \<longrightarrow>
                  map strategy (strategies ?r) = [''debt_snowball'', ''debt_avalanche''] \<and>
                  map monthly_allocation (strategies ?r)
                    = [average_monthly_debt ?r
                         + max 0 (monthly_savings (get_income_summary self) * 0.5),
                       average_monthly_debt ?r
                         + max 0 (monthly_savings (get_income_summary self) * 0.5)])"
    using f by (simp add: self)
  have mean: "average_monthly_debt ?r =
               (if monthly_breakdown ?r = [] then 0
                else sum_list (map snd (monthly_breakdown ?r))
                       / of_nat (length (monthly_breakdown ?r)))"
    using f by (simp add: mean_values_def dict_values_def)
  have nodebt: "strategies ?r = [] \<and> total_debt_payments ?r = 0"
    if none: "\<not> (\<exists>t \<in> set txs. category t \<in> set debt_categories)"
  proof -
    from none have empty: "filter (\<lambda>t. category t \<in> set debt_categories) txs = []"
      by (simp add: filter_empty_conv)
    have "monthly_breakdown ?r = []"
      using f none by (simp add: group_Nil_iff)
    then have "average_monthly_debt ?r = 0"
      using mean by simp
    then show ?thesis using f empty by simp
  qed
  from names mean nodebt show ?thesis
    unfolding Let_def by blast
qed

lemma same_upto_sign_fold:
  "list_all2 (\<lambda>a b. date a = date b \<and> category a = category b \<and> \<bar>amount a\<bar> = \<bar>amount b\<bar>) xs ys \<Longrightarrow>
     foldl (\<lambda>m t. if category t \<in> set debt_categories
                   then dict_add (strftime_Ym (date t)) \<bar>amount t\<bar> m else m) d xs
       = foldl (\<lambda>m t. if category t \<in> set debt_categories
                       then dict_add (strftime_Ym (date t)) \<bar>amount t\<bar> m else m) d ys"
  by (induction xs ys arbitrary: d rule: list_all2_induct) auto

lemma same_upto_sign_sum:
  "list_all2 (\<lambda>a b. date a = date b \<and> category a = category b \<and> \<bar>amount a\<bar> = \<bar>amount b\<bar>) xs ys \<Longrightarrow>
     sum_list (map (\<lambda>t. \<bar>amount t\<bar>) (filter (\<lambda>t. category t \<in> set debt_categories) xs))
       = sum_list (map (\<lambda>t. \<bar>amount t\<bar>) (filter (\<lambda>t. category t \<in> set debt_categories) ys))"
  by (induction xs ys rule: list_all2_induct) auto

text \<open>
  C10. For a list on which construction succeeds, \<open>get_debt_analysis\<close> selects by category
  alone: \<open>total_debt_payments\<close> is the sum of \<open>|amount|\<close> over all transactions of a debt
  category, \<open>monthly_breakdown\<close> maps each month key to that sum over the debt transactions
  of the month (and has no other key), and a list that differs from the given one only in
  the signs of amounts has the same \<open>total_debt_payments\<close> and \<open>monthly_breakdown\<close>.
\<close>

theorem C10_debt_ignores_sign:
  assumes "FinancialAnalyzer_init txs = Inr self"
  shows "(let r = get_debt_analysis self
          in total_debt_payments r
               = sum_list (map (\<lambda>t. \<bar>amount t\<bar>)
                   (filter (\<lambda>t. category t \<in> set debt_categories) txs)) \<and>
             (\<forall>k. map_of (monthly_breakdown r) k =
                (if \<exists>t \<in> set txs. category t \<in> set debt_categories \<and> strftime_Ym (date t) = k
                 then Some (sum_list (map (\<lambda>t. \<bar>amount t\<bar>)
                        (filter (\<lambda>t. category t \<in> set debt_categories \<and> strftime_Ym (date t) = k)
                           txs)))
                 else None)) \<and>
             distinct (map fst (monthly_breakdown r)) \<and>
             (\<forall>txs'. list_all2 (\<lambda>a b. date a = date b \<and> category a = category b
                                      \<and> \<bar>amount a\<bar> = \<bar>amount b\<bar>) txs' txs \<longrightarrow>
                total_debt_payments (get_debt_analysis \<lparr>transactions = txs'\<rparr>)
                  = total_debt_payments r \<and>
                monthly_breakdown (get_debt_analysis \<lparr>transactions = txs'\<rparr>)
                  = monthly_breakdown r))"
proof -
  from assms have self: "self = \<lparr>transactions = txs\<rparr>" by (rule init_Inr)
  let ?r = "get_debt_analysis self"
  note f = debt_fields[OF refl, of txs, folded self]
  have tot: "total_debt_payments ?r
               = sum_list (map (\<lambda>t. \<bar>amount t\<bar>)
                   (filter (\<lambda>t. category t \<in> set debt_categories) txs))"
    using f by simp
  have look: "\<forall>k. map_of (monthly_breakdown ?r) k =
                (if \<exists>t \<in> set txs. category t \<in> set debt_categories \<and> strftime_Ym (date t) = k
                 then Some (sum_list (map (\<lambda>t. \<bar>amount t\<bar>)
                        (filter (\<lambda>t. category t \<in> set debt_categories \<and> strftime_Ym (date t) = k)
                           txs)))
                 else None)"
    using f by (simp add: group_lookup dict_get_def)
  have dist: "distinct (map fst (monthly_breakdown ?r))"
    using f by (simp add: group_distinct)
  have same: "total_debt_payments (get_debt_analysis \<lparr>transactions = txs'\<rparr>)
                = total_debt_payments ?r \<and>
              monthly_breakdown (get_debt_analysis \<lparr>transactions = txs'\<rparr>)
                = monthly_breakdown ?r"
    if "list_all2 (\<lambda>a b. date a = date b \<and> category a = category b
                          \<and> \<bar>amount a\<bar> = \<bar>amount b\<bar>) txs' txs" for txs'
    using debt_fields[OF refl, of txs'] f same_upto_sign_fold[OF that] same_upto_sign_sum[OF that]
    by simp
  from tot look dist same show ?thesis
    unfolding Let_def by blast
qed

section \<open>Instances on the sample data\<close>

lemma sample_init: "FinancialAnalyzer_init sample_txs = Inr \<lparr>transactions = sample_txs\<rparr>"
  by code_simp

lemma no_income_init: "FinancialAnalyzer_init no_income_txs = Inr \<lparr>transactions = no_income_txs\<rparr>"
  by code_simp

subsection \<open>The claims at concrete inputs\<close>

theorem C1_construction_witness:
  "FinancialAnalyzer_init
     [txn (at_midnight 2024 1 1) 2250 INCOME, txn (at_midnight 2024 1 15) (- 1200) RENT]
     = Inl (ValueError ''Not enough data: only 14 days of transactions.'') \<and>
   FinancialAnalyzer_init
     [txn (at_midnight 2024 1 1) 2250 INCOME, txn (at_midnight 2024 3 1) (- 1200) RENT]
     = Inr \<lparr>transactions =
              [txn (at_midnight 2024 1 1) 2250 INCOME, txn (at_midnight 2024 3 1) (- 1200) RENT]\<rparr>"
proof -
  let ?a = "txn (at_midnight 2024 1 1) 2250 INCOME"
  let ?b = "txn (at_midnight 2024 1 15) (- 1200) RENT"
  let ?c = "txn (at_midnight 2024 3 1) (- 1200) RENT"
  have short: "timedelta_days (py_max (date ?a) (map date [?b])) (py_min (date ?a) (map date [?b])) = 14"
    by code_simp
  have long: "timedelta_days (py_max (date ?a) (map date [?c])) (py_min (date ?a) (map date [?c])) = 60"
    by code_simp
  have text14: "str_int 14 = ''14''"
    by code_simp
  have "FinancialAnalyzer_init [?a, ?b]
          = Inl (ValueError ''Not enough data: only 14 days of transactions.'')"
    using C1_construction[of ?a "[?b]"] unfolding Let_def short text14 by simp
  moreover have "FinancialAnalyzer_init [?a, ?c] = Inr \<lparr>transactions = [?a, ?c]\<rparr>"
    using C1_construction[of ?a "[?c]"] unfolding Let_def long by simp
  ultimately show ?thesis by simp
qed

theorem C1_empty_message_counterexample:
  "FinancialAnalyzer_init [] = Inl (ValueError ''No transactions provided.'') \<and>
   \<not> list_ex is_digit ''No transactions provided.''"
  by (simp add: FinancialAnalyzer_init_def validate_data_def is_digit_def)

theorem C2_income_summary_witness:
  "FinancialAnalyzer_init sample_txs = Inr \<lparr>transactions = sample_txs\<rparr> \<and>
   months_covered (get_income_summary \<lparr>transactions = sample_txs\<rparr>) = 13 / 6 \<and>
   average_monthly (get_income_summary \<lparr>transactions = sample_txs\<rparr>) = 27600 / 13 \<and>
   FinancialAnalyzer_init no_income_txs = Inr \<lparr>transactions = no_income_txs\<rparr> \<and>
   savings_rate (get_income_summary \<lparr>transactions = no_income_txs\<rparr>) = 0"
proof -
  let ?s = "get_income_summary \<lparr>transactions = sample_txs\<rparr>"
  have some: "\<exists>t \<in> set sample_txs. 0 < amount t" by code_simp
  have span: "date_span (map date (filter (\<lambda>t. 0 < amount t) sample_txs)) = Inr 65" by code_simp
  have tot: "sum_list (map amount (filter (\<lambda>t. 0 < amount t) sample_txs)) = 4600" by code_simp
  have none: "\<not> (\<exists>t \<in> set no_income_txs. 0 < amount t)" by code_simp
  note fact = C2_income_summary[OF sample_init, unfolded Let_def]
  have m: "months_covered ?s = 13 / 6"
    using fact some span by simp
  have a: "average_monthly ?s = 4600 / months_covered ?s"
    using fact some span tot by simp
  have "average_monthly ?s = 27600 / 13"
    unfolding a m by simp
  moreover from C2_income_summary[OF no_income_init] none
  have "savings_rate (get_income_summary \<lparr>transactions = no_income_txs\<rparr>) = 0"
    unfolding Let_def by simp
  ultimately show ?thesis using sample_init no_income_init m by simp
qed

theorem C3_debt_strategies_witness:
  "FinancialAnalyzer_init sample_txs = Inr \<lparr>transactions = sample_txs\<rparr> \<and>
   average_monthly_debt (get_debt_analysis \<lparr>transactions = sample_txs\<rparr>) = 450 \<and>
   map strategy (strategies (get_debt_analysis \<lparr>transactions = sample_txs\<rparr>))
     = [''debt_snowball'', ''debt_avalanche''] \<and>
   FinancialAnalyzer_init no_income_txs = Inr \<lparr>transactions = no_income_txs\<rparr> \<and>
   strategies (get_debt_analysis \<lparr>transactions = no_income_txs\<rparr>) = [] \<and>
   total_debt_payments (get_debt_analysis \<lparr>transactions = no_income_txs\<rparr>) = 0"
proof -
  have avg: "average_monthly_debt (get_debt_analysis \<lparr>transactions = sample_txs\<rparr>) = 450"
    by code_simp
  have none: "\<not> (\<exists>t \<in> set no_income_txs. category t \<in> set debt_categories)"
    by code_simp
  from C3_debt_strategies[OF sample_init] avg
  have "map strategy (strategies (get_debt_analysis \<lparr>transactions = sample_txs\<rparr>))
          = [''debt_snowball'', ''debt_avalanche'']"
    unfolding Let_def by simp
  moreover from C3_debt_strategies[OF no_income_init] none
  have "strategies (get_debt_analysis \<lparr>transactions = no_income_txs\<rparr>) = [] \<and>
        total_debt_payments (get_debt_analysis \<lparr>transactions = no_income_txs\<rparr>) = 0"
    unfolding Let_def by blast
  ultimately show ?thesis using sample_init no_income_init avg by simp
qed

theorem C10_debt_ignores_sign_witness:
  "FinancialAnalyzer_init sample_txs = Inr \<lparr>transactions = sample_txs\<rparr> \<and>
   total_debt_payments (get_debt_analysis \<lparr>transactions = sample_txs\<rparr>) = 450 \<and>
   total_debt_payments (get_debt_analysis \<lparr>transactions = sign_flipped_txs\<rparr>) = 450 \<and>
   monthly_breakdown (get_debt_analysis \<lparr>transactions = sign_flipped_txs\<rparr>)
     = [(''2024-03'', 450)]"
proof -
  have rel: "list_all2 (\<lambda>a b. date a = date b \<and> category a = category b
                              \<and> \<bar>amount a\<bar> = \<bar>amount b\<bar>) sign_flipped_txs sample_txs"
    by code_simp
  have tot: "sum_list (map (\<lambda>t. \<bar>amount t\<bar>)
               (filter (\<lambda>t. category t \<in> set debt_categories) sample_txs)) = 450"
    by code_simp
  have mb: "monthly_breakdown (get_debt_analysis \<lparr>transactions = sample_txs\<rparr>)
              = [(''2024-03'', 450)]"
    by code_simp
  note fact = C10_debt_ignores_sign[OF sample_init, unfolded Let_def]
  from fact tot have "total_debt_payments (get_debt_analysis \<lparr>transactions = sample_txs\<rparr>) = 450"
    by simp
  moreover from fact rel
  have "total_debt_payments (get_debt_analysis \<lparr>transactions = sign_flipped_txs\<rparr>)
          = total_debt_payments (get_debt_analysis \<lparr>transactions = sample_txs\<rparr>) \<and>
        monthly_breakdown (get_debt_analysis \<lparr>transactions = sign_flipped_txs\<rparr>)
          = monthly_breakdown (get_debt_analysis \<lparr>transactions = sample_txs\<rparr>)"
    by blast
  ultimately show ?thesis using sample_init mb by simp
qed

end
